theory Spec2Isabelle
  imports Main
begin

section \<open>Data model of \<^verbatim>\<open>src/App.tsx\<close>\<close>

text \<open>
  The component \<^verbatim>\<open>KanbanTodoList\<close> keeps five pieces of React state and six asynchronous
  handlers that talk to the remote store and then replace the \<^verbatim>\<open>columns\<close> state.
  The handlers are embedded as functions from the state at the time of the call (the
  closure's values) and the answers of the remote store to the state after the handler
  has run, together with the list of effects it caused (remote requests and console
  entries), in the order in which they happen. A handler is taken to run from its call to
  its last state update with no other handler's update of \<^verbatim>\<open>columns\<close> in between.

  Record fields live in one name space, so the fields \<^verbatim>\<open>id\<close> and \<^verbatim>\<open>content\<close>, which the
  source uses in several types, carry a prefix naming their type.
\<close>

datatype Priority = Normal | Urgente | Inmediata

datatype Status = Inicio | Enmarcha | Acabado

text \<open>The string each \<^verbatim>\<open>Status\<close> value is at run time; droppable ids are compared with it.\<close>

fun status_name :: "Status \<Rightarrow> string" where
  "status_name Inicio = ''inicio''"
| "status_name Enmarcha = ''enmarcha''"
| "status_name Acabado = ''acabado''"

record Comment =
  c_id :: string
  c_content :: string
  c_timestamp :: int
  c_task_id :: string

text \<open>
  A row of the table \<^verbatim>\<open>tasks\<close>: a task as the remote store returns it, without comments.
  Its fields have the types the source declares for \<^verbatim>\<open>Task\<close>.
\<close>

record TaskRow =
  r_id :: string
  r_content :: string
  r_status :: Status
  r_priority :: Priority

record Task =
  t_id :: string
  t_content :: string
  t_status :: Status
  t_priority :: Priority
  t_comments :: "Comment list"

record Column =
  col_id :: Status
  col_title :: string
  col_tasks :: "Task list"
  col_color :: string

definition initialColumns :: "Column list" where
  "initialColumns =
    [\<lparr>col_id = Inicio, col_title = ''Inicio'', col_tasks = [], col_color = ''bg-blue-100''\<rparr>,
     \<lparr>col_id = Enmarcha, col_title = ''En Marcha'', col_tasks = [], col_color = ''bg-yellow-100''\<rparr>,
     \<lparr>col_id = Acabado, col_title = ''Acabado'', col_tasks = [], col_color = ''bg-red-100''\<rparr>]"

text \<open>The React state of the component (the five \<^verbatim>\<open>useState\<close> cells).\<close>

record state =
  columns :: "Column list"
  newTask :: string
  newComment :: string
  selectedTask :: "Task option"
  loading :: bool

definition initialState :: state where
  "initialState =
    \<lparr>columns = initialColumns, newTask = '''', newComment = '''',
     selectedTask = None, loading = True\<rparr>"

text \<open>
  The two ends of a drag, as the drag-and-drop library reports them: the id of a droppable
  (any string) and a position in its list.
\<close>

record DraggableLocation =
  droppableId :: string
  index :: nat

record DropResult =
  source :: DraggableLocation
  destination :: "DraggableLocation option"

subsection \<open>Errors and effects\<close>

text \<open>
  A remote call answers \<^verbatim>\<open>{ data, error }\<close>; the handlers throw a non-null \<^verbatim>\<open>error\<close>.
  The only other exception a handler can raise is the \<^verbatim>\<open>TypeError\<close> of reading a field of
  \<^verbatim>\<open>undefined\<close>.
\<close>

datatype error = RemoteError string | TypeError

datatype remote_call =
    SelectTasks
  | SelectComments
  | UpdateTaskStatus Status string
  | InsertTask string Status Priority
  | UpdateTaskPriority Priority string
  | DeleteTask string
  | InsertComment string string int

datatype effect = Remote remote_call | ConsoleError string error

subsection \<open>Library functions of the language\<close>

text \<open>
  \<^verbatim>\<open>String.prototype.trim\<close> removes white space and line terminators from both ends.
  A string is the list of its code units, here those below 256; the white space among
  them is TAB, LF, VT, FF, CR, SP and NBSP.
\<close>

definition isWhiteSpace :: "char \<Rightarrow> bool" where
  "isWhiteSpace c = (of_char c \<in> {9, 10, 11, 12, 13, 32, 160 :: nat})"

definition trim :: "string \<Rightarrow> string" where
  "trim s = rev (dropWhile isWhiteSpace (rev (dropWhile isWhiteSpace s)))"

text \<open>
  \<^verbatim>\<open>xs.splice(i, 1)\<close> on a copy: the element at \<open>i\<close> is removed, nothing is when \<open>i\<close> is
  past the end. \<^verbatim>\<open>xs.splice(i, 0, x)\<close>: \<open>x\<close> is inserted before position \<open>i\<close>, at the
  end when \<open>i\<close> is past it.
\<close>

definition splice_remove :: "nat \<Rightarrow> 'a list \<Rightarrow> 'a list" where
  "splice_remove i xs = take i xs @ drop (Suc i) xs"

definition splice_insert :: "nat \<Rightarrow> 'a \<Rightarrow> 'a list \<Rightarrow> 'a list" where
  "splice_insert i x xs = take i xs @ x # drop i xs"

section \<open>The handlers\<close>

subsection \<open>fetchTasks\<close>

text \<open>\<^verbatim>\<open>{ ...task, comments: cs }\<close> for a row of the table.\<close>

definition with_comments :: "TaskRow \<Rightarrow> Comment list \<Rightarrow> Task" where
  "with_comments r cs =
    \<lparr>t_id = r_id r, t_content = r_content r, t_status = r_status r,
     t_priority = r_priority r, t_comments = cs\<rparr>"

definition tasksWithComments :: "TaskRow list \<Rightarrow> Comment list \<Rightarrow> Task list" where
  "tasksWithComments tasks comments =
    map (\<lambda>task. with_comments task (filter (\<lambda>comment. c_task_id comment = r_id task) comments))
      tasks"

text \<open>
  The first argument is the answer to the select on \<^verbatim>\<open>tasks\<close>, the second the answer to
  the select on \<^verbatim>\<open>comments\<close>, which is only sent when the first has succeeded. The
  \<^verbatim>\<open>finally\<close> block clears \<^verbatim>\<open>loading\<close> on every path.
\<close>

definition fetchTasks ::
  "error + TaskRow list \<Rightarrow> error + Comment list \<Rightarrow> state \<Rightarrow> state \<times> effect list" where
  "fetchTasks tasksAnswer commentsAnswer s =
    (case tasksAnswer of
       Inl tasksError \<Rightarrow>
         (s\<lparr>loading := False\<rparr>,
          [Remote SelectTasks, ConsoleError ''Error fetching data:'' tasksError])
     | Inr tasks \<Rightarrow>
         (case commentsAnswer of
            Inl commentsError \<Rightarrow>
              (s\<lparr>loading := False\<rparr>,
               [Remote SelectTasks, Remote SelectComments,
                ConsoleError ''Error fetching data:'' commentsError])
          | Inr comments \<Rightarrow>
              (let newColumns =
                 map (\<lambda>col. col\<lparr>col_tasks :=
                        filter (\<lambda>task. t_status task = col_id col)
                          (tasksWithComments tasks comments)\<rparr>)
                   initialColumns
               in (s\<lparr>columns := newColumns, loading := False\<rparr>,
                   [Remote SelectTasks, Remote SelectComments]))))"

subsection \<open>onDragEnd\<close>

definition findColumn :: "Column list \<Rightarrow> string \<Rightarrow> Column option" where
  "findColumn cols droppable = find (\<lambda>col. status_name (col_id col) = droppable) cols"

text \<open>
  The state patch of a successful move. The test for the source column comes first and
  returns, so a column that is both source and destination only has the task removed.
\<close>

definition moveColumns ::
  "DraggableLocation \<Rightarrow> DraggableLocation \<Rightarrow> Task \<Rightarrow> Column list \<Rightarrow> Column list" where
  "moveColumns src dst updatedTask cols =
    map (\<lambda>col.
      if status_name (col_id col) = droppableId src
      then col\<lparr>col_tasks := splice_remove (index src) (col_tasks col)\<rparr>
      else if status_name (col_id col) = droppableId dst
      then col\<lparr>col_tasks := splice_insert (index dst) updatedTask (col_tasks col)\<rparr>
      else col) cols"

text \<open>
  The argument \<open>answer\<close> is the \<^verbatim>\<open>error\<close> field of the answer to the update. When the
  source index is past the end of the source column, \<^verbatim>\<open>task\<close> is \<^verbatim>\<open>undefined\<close> and
  reading \<^verbatim>\<open>task.id\<close> inside the \<^verbatim>\<open>try\<close> block throws while the request is still being
  built: nothing is sent and the \<^verbatim>\<open>catch\<close> block logs the error.
\<close>

definition onDragEnd :: "error option \<Rightarrow> DropResult \<Rightarrow> state \<Rightarrow> state \<times> effect list" where
  "onDragEnd answer result s =
    (case destination result of
       None \<Rightarrow> (s, [])
     | Some dst \<Rightarrow>
         (case findColumn (columns s) (droppableId (source result)) of
            None \<Rightarrow> (s, [])
          | Some sourceColumn \<Rightarrow>
              (case findColumn (columns s) (droppableId dst) of
                 None \<Rightarrow> (s, [])
               | Some destColumn \<Rightarrow>
                   if index (source result) < length (col_tasks sourceColumn)
                   then
                     (let task = col_tasks sourceColumn ! index (source result);
                          updatedTask = task\<lparr>t_status := col_id destColumn\<rparr>;
                          request = Remote (UpdateTaskStatus (col_id destColumn) (t_id task))
                      in case answer of
                           Some err \<Rightarrow>
                             (s, [request, ConsoleError ''Error updating task status:'' err])
                         | None \<Rightarrow>
                             (s\<lparr>columns :=
                                  moveColumns (source result) dst updatedTask (columns s)\<rparr>,
                              [request]))
                   else (s, [ConsoleError ''Error updating task status:'' TypeError]))))"

subsection \<open>addTask\<close>

text \<open>
  The answer to the insert carries the inserted row (\<^verbatim>\<open>data[0]\<close>), with the id the
  remote store assigned.
\<close>

definition addTask :: "error + TaskRow \<Rightarrow> state \<Rightarrow> state \<times> effect list" where
  "addTask answer s =
    (if trim (newTask s) = [] then (s, [])
     else
       (let request = Remote (InsertTask (trim (newTask s)) Inicio Normal)
        in case answer of
             Inl err \<Rightarrow> (s, [request, ConsoleError ''Error adding task:'' err])
           | Inr row \<Rightarrow>
               (let created = with_comments row [];
                    newColumns =
                      map (\<lambda>col. if col_id col = Inicio
                                  then col\<lparr>col_tasks := col_tasks col @ [created]\<rparr>
                                  else col) (columns s)
                in (s\<lparr>columns := newColumns, newTask := ''''\<rparr>, [request]))))"

subsection \<open>changeTaskPriority\<close>

definition changeTaskPriority ::
  "error option \<Rightarrow> string \<Rightarrow> Priority \<Rightarrow> state \<Rightarrow> state \<times> effect list" where
  "changeTaskPriority answer taskId newPriority s =
    (let request = Remote (UpdateTaskPriority newPriority taskId)
     in case answer of
          Some err \<Rightarrow> (s, [request, ConsoleError ''Error updating task priority:'' err])
        | None \<Rightarrow>
            (let newColumns =
               map (\<lambda>col. col\<lparr>col_tasks :=
                      map (\<lambda>task. if t_id task = taskId
                                   then task\<lparr>t_priority := newPriority\<rparr> else task)
                        (col_tasks col)\<rparr>)
                 (columns s)
             in (s\<lparr>columns := newColumns\<rparr>, [request])))"

subsection \<open>deleteTask\<close>

definition deleteTask :: "error option \<Rightarrow> string \<Rightarrow> state \<Rightarrow> state \<times> effect list" where
  "deleteTask answer taskId s =
    (let request = Remote (DeleteTask taskId)
     in case answer of
          Some err \<Rightarrow> (s, [request, ConsoleError ''Error deleting task:'' err])
        | None \<Rightarrow>
            (let newColumns =
               map (\<lambda>col. col\<lparr>col_tasks :=
                      filter (\<lambda>task. t_id task \<noteq> taskId) (col_tasks col)\<rparr>)
                 (columns s)
             in (s\<lparr>columns := newColumns\<rparr>, [request])))"

subsection \<open>addComment\<close>

text \<open>
  \<open>now\<close> is the value of \<^verbatim>\<open>Date.now()\<close>; the answer to the insert carries the inserted
  comment (\<^verbatim>\<open>data[0]\<close>).
\<close>

definition addComment :: "error + Comment \<Rightarrow> int \<Rightarrow> state \<Rightarrow> state \<times> effect list" where
  "addComment answer now s =
    (case selectedTask s of
       None \<Rightarrow> (s, [])
     | Some selected \<Rightarrow>
         if trim (newComment s) = [] then (s, [])
         else
           (let request = Remote (InsertComment (trim (newComment s)) (t_id selected) now)
            in case answer of
                 Inl err \<Rightarrow> (s, [request, ConsoleError ''Error adding comment:'' err])
               | Inr inserted \<Rightarrow>
                   (let newColumns =
                      map (\<lambda>col. col\<lparr>col_tasks :=
                             map (\<lambda>task. if t_id task = t_id selected
                                          then task\<lparr>t_comments := t_comments task @ [inserted]\<rparr>
                                          else task)
                               (col_tasks col)\<rparr>)
                        (columns s)
                    in (s\<lparr>columns := newColumns, newComment := '''', selectedTask := None\<rparr>,
                        [request]))))"

subsection \<open>Reading a snapshot\<close>

text \<open>All tasks of a snapshot, column by column.\<close>

definition allTasks :: "Column list \<Rightarrow> Task list" where
  "allTasks cols = concat (map col_tasks cols)"

text \<open>How often a task with the given id occurs in the snapshot.\<close>

definition occurrences :: "string \<Rightarrow> Column list \<Rightarrow> nat" where
  "occurrences taskId cols = length (filter (\<lambda>task. t_id task = taskId) (allTasks cols))"

text \<open>The remote requests among the effects of a handler, in the order they were sent.\<close>

fun remoteCalls :: "effect list \<Rightarrow> remote_call list" where
  "remoteCalls [] = []"
| "remoteCalls (Remote c # es) = c # remoteCalls es"
| "remoteCalls (ConsoleError label err # es) = remoteCalls es"

subsection \<open>Example data\<close>

definition buyMilkRow :: TaskRow where
  "buyMilkRow =
    \<lparr>r_id = ''t1'', r_content = ''Buy milk'', r_status = Inicio, r_priority = Normal\<rparr>"

definition buyMilk :: Task where
  "buyMilk =
    \<lparr>t_id = ''t1'', t_content = ''Buy milk'', t_status = Inicio, t_priority = Normal,
     t_comments = []\<rparr>"

definition writeReportRow :: TaskRow where
  "writeReportRow =
    \<lparr>r_id = ''t2'', r_content = ''Write report'', r_status = Inicio, r_priority = Normal\<rparr>"

definition writeReport :: Task where
  "writeReport =
    \<lparr>t_id = ''t2'', t_content = ''Write report'', t_status = Inicio, t_priority = Normal,
     t_comments = []\<rparr>"

definition looksGood :: Comment where
  "looksGood =
    \<lparr>c_id = ''c1'', c_content = ''Looks good'', c_timestamp = 1700000000000,
     c_task_id = ''t1''\<rparr>"

definition callAnaRow :: TaskRow where
  "callAnaRow =
    \<lparr>r_id = ''t3'', r_content = ''Call Ana'', r_status = Acabado, r_priority = Inmediata\<rparr>"

definition callAna :: Task where
  "callAna =
    \<lparr>t_id = ''t3'', t_content = ''Call Ana'', t_status = Acabado, t_priority = Inmediata,
     t_comments = []\<rparr>"



definition wellDone :: Comment where
  "wellDone =
    \<lparr>c_id = ''c2'', c_content = ''Well done'', c_timestamp = 1700000000500,
     c_task_id = ''t3''\<rparr>"

definition soldOut :: Comment where
  "soldOut =
    \<lparr>c_id = ''c3'', c_content = ''Sold out'', c_timestamp = 1700000000900,
     c_task_id = ''t1''\<rparr>"

text \<open>The three columns of \<^verbatim>\<open>initialColumns\<close> holding the given task lists.\<close>

definition board :: "Task list \<Rightarrow> Task list \<Rightarrow> Task list \<Rightarrow> Column list" where
  "board a b c =
    [\<lparr>col_id = Inicio, col_title = ''Inicio'', col_tasks = a, col_color = ''bg-blue-100''\<rparr>,
     \<lparr>col_id = Enmarcha, col_title = ''En Marcha'', col_tasks = b, col_color = ''bg-yellow-100''\<rparr>,
     \<lparr>col_id = Acabado, col_title = ''Acabado'', col_tasks = c, col_color = ''bg-red-100''\<rparr>]"

text \<open>A state after loading, with empty drafts and no task selected.\<close>

definition loaded :: "Column list \<Rightarrow> state" where
  "loaded cols =
    \<lparr>columns = cols, newTask = '''', newComment = '''', selectedTask = None, loading = False\<rparr>"

section \<open>Properties\<close>

subsection \<open>Auxiliary facts\<close>

lemma trim_empty_iff: "trim s = [] \<longleftrightarrow> (\<forall>c\<in>set s. isWhiteSpace c)"
proof
  assume "trim s = []"
  then have rest: "\<forall>c\<in>set (dropWhile isWhiteSpace s). isWhiteSpace c"
    by (simp add: trim_def)
  have "dropWhile isWhiteSpace s = []"
  proof (cases "dropWhile isWhiteSpace s")
    case Nil
    then show ?thesis .
  next
    case (Cons x xs)
    then have "\<not> isWhiteSpace x"
      using hd_dropWhile [of isWhiteSpace s] by auto
    with rest Cons show ?thesis by simp
  qed
  then show "\<forall>c\<in>set s. isWhiteSpace c" by simp
next
  assume "\<forall>c\<in>set s. isWhiteSpace c"
  then show "trim s = []"
    by (auto simp: trim_def dest: set_dropWhileD)
qed

lemma findColumn_None_iff:
  "findColumn cols d = None \<longleftrightarrow> (\<forall>col\<in>set cols. status_name (col_id col) \<noteq> d)"
  by (auto simp: findColumn_def find_None_iff)

lemma filter_tasksWithComments:
  "filter (\<lambda>task. t_status task = st) (tasksWithComments tasks comments)
   = tasksWithComments (filter (\<lambda>r. r_status r = st) tasks) comments"
  by (induction tasks) (auto simp: tasksWithComments_def with_comments_def)

lemma fetchTasks_columns:
  "columns (fst (fetchTasks (Inr tasks) (Inr comments) s)) =
     map (\<lambda>col. col\<lparr>col_tasks :=
            tasksWithComments (filter (\<lambda>r. r_status r = col_id col) tasks) comments\<rparr>)
       initialColumns"
  by (simp add: fetchTasks_def filter_tasksWithComments)

lemma findColumn_Some:
  assumes "findColumn cols d = Some col"
  shows "col \<in> set cols \<and> status_name (col_id col) = d"
  using assms by (auto simp: findColumn_def find_Some_iff)

lemma status_name_inject: "status_name a = status_name b \<longleftrightarrow> a = b"
  by (cases a; cases b) simp_all

lemma three_columns:
  assumes "map col_id cols = [Inicio, Enmarcha, Acabado]"
  obtains c1 c2 c3 where "cols = [c1, c2, c3]"
    and "col_id c1 = Inicio" and "col_id c2 = Enmarcha" and "col_id c3 = Acabado"
  using assms by (auto simp: map_eq_Cons_conv)


lemma set_col_tasks_allTasks: "col \<in> set cols \<Longrightarrow> set (col_tasks col) \<subseteq> set (allTasks cols)"
  by (auto simp: allTasks_def)

text \<open>Setting a priority that every task with the id already has changes no column.\<close>

lemma reprioritize_same:
  assumes "\<forall>t\<in>set (allTasks cols). t_id t = taskId \<longrightarrow> t_priority t = p"
  shows "map (\<lambda>col. col\<lparr>col_tasks :=
                      map (\<lambda>task. if t_id task = taskId
                                   then task\<lparr>t_priority := p\<rparr> else task)
                        (col_tasks col)\<rparr>) cols = cols"
proof -
  have "map (\<lambda>task. if t_id task = taskId then task\<lparr>t_priority := p\<rparr> else task) (col_tasks col)
      = col_tasks col" if "col \<in> set cols" for col
  proof -
    from that have "\<forall>t\<in>set (col_tasks col). t_id t = taskId \<longrightarrow> t_priority t = p"
      using assms set_col_tasks_allTasks by blast
    then show ?thesis
      by (simp add: map_idI)
  qed
  then show ?thesis by (simp add: map_idI)
qed


text \<open>Counting the elements with a property across the two kinds of splice.\<close>

lemma count_splice_remove:
  assumes "i < length xs" and "P (xs ! i)"
  shows "Suc (length (filter P (splice_remove i xs))) = length (filter P xs)"
proof -
  have "xs = take i xs @ xs ! i # drop (Suc i) xs"
    using assms(1) by (rule id_take_nth_drop)
  then have "length (filter P xs) = length (filter P (take i xs @ xs ! i # drop (Suc i) xs))"
    by simp
  also have "\<dots> = Suc (length (filter P (splice_remove i xs)))"
    using assms(2) by (simp add: splice_remove_def)
  finally show ?thesis by simp
qed

lemma count_splice_insert:
  "length (filter P (splice_insert j x xs)) =
     (if P x then Suc (length (filter P xs)) else length (filter P xs))"
proof -
  have "length (filter P (take j xs)) + length (filter P (drop j xs)) = length (filter P xs)"
    by (metis append_take_drop_id filter_append length_append)
  then show ?thesis by (auto simp: splice_insert_def)
qed

lemma set_splice_insert: "set (splice_insert j x xs) = insert x (set xs)"
proof -
  have "set (take j xs) \<union> set (drop j xs) = set xs"
    by (metis append_take_drop_id set_append)
  then show ?thesis by (auto simp: splice_insert_def)
qed

text \<open>
  No handler changes the ids of the columns or their order, and a load sets them to those
  of \<^verbatim>\<open>initialColumns\<close>; so every state the component reaches has the three columns
  \<^verbatim>\<open>inicio\<close>, \<^verbatim>\<open>enmarcha\<close>, \<^verbatim>\<open>acabado\<close>.
\<close>

lemma fetchTasks_column_ids:
  "map col_id (columns s) = [Inicio, Enmarcha, Acabado] \<Longrightarrow>
   map col_id (columns (fst (fetchTasks tasksAnswer commentsAnswer s))) = [Inicio, Enmarcha, Acabado]"
  by (simp add: fetchTasks_def initialColumns_def split: sum.split)

lemma onDragEnd_column_ids:
  "map col_id (columns (fst (onDragEnd answer result s))) = map col_id (columns s)"
  by (simp add: onDragEnd_def moveColumns_def Let_def comp_def if_distrib [of col_id]
      split: option.split)

lemma addTask_column_ids:
  "map col_id (columns (fst (addTask answer s))) = map col_id (columns s)"
  by (simp add: addTask_def Let_def comp_def if_distrib [of col_id] split: sum.split)

lemma changeTaskPriority_column_ids:
  "map col_id (columns (fst (changeTaskPriority answer taskId p s))) = map col_id (columns s)"
  by (simp add: changeTaskPriority_def Let_def comp_def split: option.split)

lemma deleteTask_column_ids:
  "map col_id (columns (fst (deleteTask answer taskId s))) = map col_id (columns s)"
  by (simp add: deleteTask_def Let_def comp_def split: option.split)

lemma addComment_column_ids:
  "map col_id (columns (fst (addComment answer now s))) = map col_id (columns s)"
  by (simp add: addComment_def Let_def comp_def split: option.split sum.split)

subsection \<open>Remote failures\<close>

text \<open>
  Claim C2. Whichever handler runs, when a remote call of it fails the columns are what
  they were before: for \<^verbatim>\<open>fetchTasks\<close> both when the select on tasks fails and when it
  succeeds and the select on comments fails (only \<^verbatim>\<open>loading\<close> is cleared), and for the
  five other handlers the whole state is unchanged.
\<close>

theorem remote_failure_keeps_columns:
  "columns (fst (fetchTasks (Inl err) commentsAnswer s)) = columns s
   \<and> columns (fst (fetchTasks (Inr tasks) (Inl err) s)) = columns s
   \<and> fst (fetchTasks (Inr tasks) (Inl err) s) = s\<lparr>loading := False\<rparr>
   \<and> fst (onDragEnd (Some err) result s) = s
   \<and> fst (addTask (Inl err) s) = s
   \<and> fst (changeTaskPriority (Some err) taskId newPriority s) = s
   \<and> fst (deleteTask (Some err) taskId s) = s
   \<and> fst (addComment (Inl err) now s) = s"
  by (simp add: fetchTasks_def onDragEnd_def addTask_def changeTaskPriority_def
      deleteTask_def addComment_def Let_def split: option.split)

theorem remote_failure_keeps_columns_witness:
  "columns (fst (fetchTasks (Inr [buyMilkRow]) (Inl (RemoteError ''timeout''))
      (loaded (board [writeReport] [] [])))) = board [writeReport] [] []
   \<and> fst (deleteTask (Some (RemoteError ''timeout'')) ''t2''
        (loaded (board [writeReport] [] []))) = loaded (board [writeReport] [] [])"
  using remote_failure_keeps_columns
    [of "RemoteError ''timeout''" "Inr []" "loaded (board [writeReport] [] [])"
      "[buyMilkRow]" _ "''t2''"]
  by (simp add: loaded_def)

subsection \<open>Loading\<close>

text \<open>
  Claim C3. A successful load yields the three columns \<^verbatim>\<open>inicio\<close>, \<^verbatim>\<open>enmarcha\<close>,
  \<^verbatim>\<open>acabado\<close>, in this order. The task list of each has one task for every fetched row
  whose status is the column's id, in fetch order; the task has the row's id, content,
  status and priority, and its comments are the fetched comments whose \<^verbatim>\<open>task_id\<close> is the
  row's id, in fetch order. The witness has the load of the single task "Buy milk" with
  no comments, and a load of three rows with three comments.
\<close>

theorem fetchTasks_partitions:
  "fetchTasks (Inr tasks) (Inr comments) s = (s', effs) \<Longrightarrow>
     map col_id (columns s') = [Inicio, Enmarcha, Acabado]
     \<and> (\<forall>col\<in>set (columns s').
          col_tasks col =
            map (\<lambda>r. \<lparr>t_id = r_id r, t_content = r_content r, t_status = r_status r,
                      t_priority = r_priority r,
                      t_comments = filter (\<lambda>c. c_task_id c = r_id r) comments\<rparr>)
              (filter (\<lambda>r. r_status r = col_id col) tasks))"
  using fetchTasks_columns [of tasks comments s]
  by (auto simp: initialColumns_def tasksWithComments_def with_comments_def)

theorem fetchTasks_partitions_witness:
  "columns (fst (fetchTasks (Inr [buyMilkRow]) (Inr []) initialState)) = board [buyMilk] [] []
   \<and> columns (fst (fetchTasks (Inr [callAnaRow, buyMilkRow, writeReportRow])
        (Inr [looksGood, wellDone, soldOut]) initialState))
     = board [buyMilk\<lparr>t_comments := [looksGood, soldOut]\<rparr>, writeReport] []
         [callAna\<lparr>t_comments := [wellDone]\<rparr>]"
  using
    fetchTasks_partitions [of "[buyMilkRow]" "[]" initialState
      "fst (fetchTasks (Inr [buyMilkRow]) (Inr []) initialState)"
      "snd (fetchTasks (Inr [buyMilkRow]) (Inr []) initialState)"]
    fetchTasks_partitions [of "[callAnaRow, buyMilkRow, writeReportRow]"
      "[looksGood, wellDone, soldOut]" initialState
      "fst (fetchTasks (Inr [callAnaRow, buyMilkRow, writeReportRow])
        (Inr [looksGood, wellDone, soldOut]) initialState)"
      "snd (fetchTasks (Inr [callAnaRow, buyMilkRow, writeReportRow])
        (Inr [looksGood, wellDone, soldOut]) initialState)"]
  by (simp add: fetchTasks_def initialColumns_def tasksWithComments_def with_comments_def
      buyMilkRow_def buyMilk_def writeReportRow_def writeReport_def callAnaRow_def
      callAna_def looksGood_def wellDone_def soldOut_def board_def)

subsection \<open>Moving a task\<close>

text \<open>
  Claim C10. A drag that ends outside every column (no destination), or whose source or
  destination droppable id is the id of no column, sends nothing and leaves the state as
  it was.
\<close>

theorem onDragEnd_no_target_noop:
  "destination result = None
   \<or> (\<forall>col\<in>set (columns s). status_name (col_id col) \<noteq> droppableId (source result))
   \<or> (\<exists>dst. destination result = Some dst
        \<and> (\<forall>col\<in>set (columns s). status_name (col_id col) \<noteq> droppableId dst))
   \<Longrightarrow> onDragEnd answer result s = (s, [])"
  by (auto simp: onDragEnd_def findColumn_None_iff [symmetric] split: option.splits)

theorem onDragEnd_no_target_noop_witness:
  "onDragEnd None
      \<lparr>source = \<lparr>droppableId = ''inicio'', index = 0\<rparr>, destination = None\<rparr>
      (loaded (board [buyMilk] [] []))
     = (loaded (board [buyMilk] [] []), [])
   \<and> onDragEnd None
      \<lparr>source = \<lparr>droppableId = ''papelera'', index = 0\<rparr>,
       destination = Some \<lparr>droppableId = ''acabado'', index = 0\<rparr>\<rparr>
      (loaded (board [buyMilk] [] []))
     = (loaded (board [buyMilk] [] []), [])
   \<and> onDragEnd None
      \<lparr>source = \<lparr>droppableId = ''inicio'', index = 0\<rparr>,
       destination = Some \<lparr>droppableId = ''papelera'', index = 0\<rparr>\<rparr>
      (loaded (board [buyMilk] [] []))
     = (loaded (board [buyMilk] [] []), [])"
  using
    onDragEnd_no_target_noop
      [of "\<lparr>source = \<lparr>droppableId = ''inicio'', index = 0\<rparr>, destination = None\<rparr>"
        "loaded (board [buyMilk] [] [])" None]
    onDragEnd_no_target_noop
      [of "\<lparr>source = \<lparr>droppableId = ''papelera'', index = 0\<rparr>,
            destination = Some \<lparr>droppableId = ''acabado'', index = 0\<rparr>\<rparr>"
        "loaded (board [buyMilk] [] [])" None]
    onDragEnd_no_target_noop
      [of "\<lparr>source = \<lparr>droppableId = ''inicio'', index = 0\<rparr>,
            destination = Some \<lparr>droppableId = ''papelera'', index = 0\<rparr>\<rparr>"
        "loaded (board [buyMilk] [] [])" None]
  by (simp add: loaded_def board_def)

text \<open>
  A successful move between two different columns of the board, of a task whose id
  occurs once in the snapshot: afterwards the id still occurs once, and the task that
  carries it is in the destination column with the destination column's id as status.
\<close>

lemma onDragEnd_between_columns:
  assumes board: "map col_id (columns s) = [Inicio, Enmarcha, Acabado]"
    and dst: "destination result = Some dst"
    and sc: "findColumn (columns s) (droppableId (source result)) = Some sourceColumn"
    and dc: "findColumn (columns s) (droppableId dst) = Some destColumn"
    and diff: "col_id sourceColumn \<noteq> col_id destColumn"
    and i: "index (source result) < length (col_tasks sourceColumn)"
    and task: "task = col_tasks sourceColumn ! index (source result)"
    and one: "occurrences (t_id task) (columns s) = 1"
    and run: "onDragEnd None result s = (s', effs)"
  shows "occurrences (t_id task) (columns s') = 1
    \<and> (\<forall>col\<in>set (columns s'). \<forall>t\<in>set (col_tasks col).
          t_id t = t_id task \<longrightarrow> col_id col = col_id destColumn \<and> t_status t = col_id destColumn)"
proof -
  define P where "P = (\<lambda>t :: Task. t_id t = t_id task)"
  define cnt where "cnt = (\<lambda>c :: Column. length (filter P (col_tasks c)))"
  define task' where "task' = task\<lparr>t_status := col_id destColumn\<rparr>"
  define mv where "mv = (\<lambda>col :: Column.
      if status_name (col_id col) = droppableId (source result)
      then col\<lparr>col_tasks := splice_remove (index (source result)) (col_tasks col)\<rparr>
      else if status_name (col_id col) = droppableId dst
      then col\<lparr>col_tasks := splice_insert (index dst) task' (col_tasks col)\<rparr>
      else col)"
  from board obtain c1 c2 c3 where cols: "columns s = [c1, c2, c3]"
    and ids: "col_id c1 = Inicio" "col_id c2 = Enmarcha" "col_id c3 = Acabado"
    by (rule three_columns)
  have s': "columns s' = [mv c1, mv c2, mv c3]"
    using run dst sc dc i
    by (auto simp: onDragEnd_def moveColumns_def mv_def task'_def task cols Let_def)
  have src: "sourceColumn \<in> {c1, c2, c3}"
    "droppableId (source result) = status_name (col_id sourceColumn)"
    using findColumn_Some [OF sc] by (auto simp: cols)
  have dest: "destColumn \<in> {c1, c2, c3}" "droppableId dst = status_name (col_id destColumn)"
    using findColumn_Some [OF dc] by (auto simp: cols)
  have moved: "P (col_tasks sourceColumn ! index (source result))"
    by (simp add: P_def task)
  define r where
    "r = length (filter P (splice_remove (index (source result)) (col_tasks sourceColumn)))"
  from i moved have rem: "Suc r = cnt sourceColumn"
    unfolding cnt_def r_def by (rule count_splice_remove)
  have total: "cnt c1 + cnt c2 + cnt c3 = 1"
    using one by (simp add: occurrences_def allTasks_def cols cnt_def P_def)
  have uniq: "a = b" if "a \<in> {c1, c2, c3}" "b \<in> {c1, c2, c3}" "col_id a = col_id b" for a b
    using that ids by auto
  have removed: "r = 0"
    using src(1) rem total by auto
  have before: "cnt c = 0" if "c \<in> {c1, c2, c3}" "c \<noteq> sourceColumn" for c
    using that src(1) rem total by auto
  have ne: "sourceColumn \<noteq> destColumn"
    using diff by auto
  have dst0: "cnt destColumn = 0"
    using before [OF dest(1)] ne by simp
  have mv_src: "cnt (mv sourceColumn) = 0"
    using removed src(2) by (simp add: mv_def cnt_def r_def)
  have mv_dst: "cnt (mv destColumn) = 1" "col_id (mv destColumn) = col_id destColumn"
    "set (col_tasks (mv destColumn)) = insert task' (set (col_tasks destColumn))"
    using dst0 dest(2) diff src(2)
    by (simp_all add: mv_def cnt_def status_name_inject count_splice_insert set_splice_insert
        P_def task'_def)
  have mv_other: "mv c = c"
    if "c \<in> {c1, c2, c3}" "c \<noteq> sourceColumn" "c \<noteq> destColumn" for c
  proof -
    have "col_id c \<noteq> col_id sourceColumn"
      using uniq [OF that(1) src(1)] that(2) by blast
    moreover have "col_id c \<noteq> col_id destColumn"
      using uniq [OF that(1) dest(1)] that(3) by blast
    ultimately show ?thesis
      by (simp add: mv_def src(2) dest(2) status_name_inject)
  qed
  have after: "cnt (mv c) = (if c = destColumn then 1 else 0)" if "c \<in> {c1, c2, c3}" for c
  proof (cases "c = sourceColumn")
    case True
    then show ?thesis using mv_src ne by simp
  next
    case not_source: False
    show ?thesis
    proof (cases "c = destColumn")
      case True
      then show ?thesis using mv_dst(1) by simp
    next
      case False
      then show ?thesis
        using mv_other [OF that not_source False] before [OF that not_source] by simp
    qed
  qed
  have distinct3: "c1 \<noteq> c2" "c1 \<noteq> c3" "c2 \<noteq> c3"
    using ids by auto
  have "cnt (mv c1) + cnt (mv c2) + cnt (mv c3)
      = (if c1 = destColumn then 1 else 0) + (if c2 = destColumn then 1 else 0)
        + (if c3 = destColumn then 1 else 0)"
    by (simp add: after)
  also have "\<dots> = 1"
    using dest(1) distinct3 by auto
  finally have count_after: "cnt (mv c1) + cnt (mv c2) + cnt (mv c3) = 1" .
  have occ: "occurrences (t_id task) (columns s') = 1"
    using count_after by (simp add: occurrences_def allTasks_def s' cnt_def P_def)
  have zero: "t_id t \<noteq> t_id task" if "cnt c = 0" "t \<in> set (col_tasks c)" for c t
    using that by (auto simp: cnt_def P_def filter_empty_conv)
  have place: "\<forall>col\<in>set (columns s'). \<forall>t\<in>set (col_tasks col).
      t_id t = t_id task \<longrightarrow> col_id col = col_id destColumn \<and> t_status t = col_id destColumn"
  proof (intro ballI impI)
    fix col t
    assume col: "col \<in> set (columns s')" and t: "t \<in> set (col_tasks col)"
      and same: "t_id t = t_id task"
    from col obtain c where c: "c \<in> {c1, c2, c3}" and mvc: "col = mv c"
      by (auto simp: s')
    have "cnt (mv c) \<noteq> 0"
      using zero [of "mv c" t] t same mvc by auto
    then have at_dest: "c = destColumn"
      using after [OF c] by (simp split: if_splits)
    then have "t = task' \<or> t \<in> set (col_tasks destColumn)"
      using t mvc mv_dst(3) by auto
    then have "t = task'"
      using zero [OF dst0] same by blast
    then show "col_id col = col_id destColumn \<and> t_status t = col_id destColumn"
      using at_dest mvc mv_dst(2) by (simp add: task'_def)
  qed
  from occ place show ?thesis by (rule conjI)
qed

text \<open>
  Claim C1. After a successful move the moved task has the destination column's id as
  status and is in exactly one column, also when source and destination are the same
  column. The code does not do this for a move within one column: the branch for the
  source column is tested first and returns, so the task is removed from the column and
  never inserted again. Here the first of two tasks of \<^verbatim>\<open>inicio\<close> is dragged to position 1
  of the same column; the remote update succeeds, and the task is in no column
  afterwards.
\<close>

theorem onDragEnd_same_column_drops_task:
  "onDragEnd None
      \<lparr>source = \<lparr>droppableId = ''inicio'', index = 0\<rparr>,
       destination = Some \<lparr>droppableId = ''inicio'', index = 1\<rparr>\<rparr>
      (loaded (board [buyMilk, writeReport] [] []))
     = (loaded (board [writeReport] [] []), [Remote (UpdateTaskStatus Inicio ''t1'')])
   \<and> occurrences ''t1'' (board [buyMilk, writeReport] [] []) = 1
   \<and> occurrences ''t1'' (board [writeReport] [] []) = 0"
  by (simp add: onDragEnd_def findColumn_def moveColumns_def splice_remove_def
      splice_insert_def loaded_def board_def buyMilk_def writeReport_def occurrences_def
      allTasks_def)

subsection \<open>Creating a task\<close>

text \<open>
  Claim C5. When the draft is empty or consists of white space only, \<^verbatim>\<open>addTask\<close> sends
  nothing, logs nothing and returns the state it was called in, whatever the remote
  store would have answered.
\<close>

theorem addTask_blank_noop:
  "(\<forall>c\<in>set (newTask s). isWhiteSpace c) \<Longrightarrow> addTask answer s = (s, [])"
  by (simp add: addTask_def trim_empty_iff)

theorem addTask_blank_noop_witness:
  "addTask (Inr writeReportRow) (initialState\<lparr>newTask := ''''\<rparr>)
     = (initialState\<lparr>newTask := ''''\<rparr>, [])
   \<and> addTask (Inr writeReportRow) (initialState\<lparr>newTask := ''   ''\<rparr>)
     = (initialState\<lparr>newTask := ''   ''\<rparr>, [])"
  using addTask_blank_noop [of "initialState\<lparr>newTask := ''''\<rparr>" "Inr writeReportRow"]
    addTask_blank_noop [of "initialState\<lparr>newTask := ''   ''\<rparr>" "Inr writeReportRow"]
  by (simp add: isWhiteSpace_def)

text \<open>
  Claim C4. With a draft whose trim is not empty, \<^verbatim>\<open>addTask\<close> sends exactly one request,
  the insert of the trimmed content with status \<^verbatim>\<open>inicio\<close> and priority \<^verbatim>\<open>normal\<close>; when
  the insert succeeds, every column with id \<^verbatim>\<open>inicio\<close> gets one task appended at the end
  of its task list, which has the id, content, status and priority of the row the remote
  store returned and no comments; every other column is the same as before, and the
  draft is cleared. The rest of the state is untouched. In the witness the store first
  returns the row as it was sent, then a row that differs from it in every field.
\<close>

theorem addTask_appends:
  assumes "trim (newTask s) \<noteq> []"
    and "addTask (Inr row) s = (s', effs)"
  shows "remoteCalls (snd (addTask answer s)) = [InsertTask (trim (newTask s)) Inicio Normal]
     \<and> effs = [Remote (InsertTask (trim (newTask s)) Inicio Normal)]
     \<and> newTask s' = ''''
     \<and> newComment s' = newComment s \<and> selectedTask s' = selectedTask s \<and> loading s' = loading s
     \<and> length (columns s') = length (columns s)
     \<and> (\<forall>i<length (columns s).
          columns s' ! i =
            (if col_id (columns s ! i) = Inicio
             then (columns s ! i)\<lparr>col_tasks := col_tasks (columns s ! i) @
                    [\<lparr>t_id = r_id row, t_content = r_content row, t_status = r_status row,
                      t_priority = r_priority row, t_comments = []\<rparr>]\<rparr>
             else columns s ! i))"
  using assms
  by (cases answer) (auto simp: addTask_def with_comments_def Let_def)

theorem addTask_appends_witness:
  "addTask (Inr writeReportRow)
      ((loaded (board [buyMilk] [] []))\<lparr>newTask := '' Write report  ''\<rparr>)
    = (loaded (board [buyMilk, writeReport] [] []),
       [Remote (InsertTask ''Write report'' Inicio Normal)])
   \<and> addTask (Inr callAnaRow)
      ((loaded (board [buyMilk] [] []))\<lparr>newTask := '' Write report  ''\<rparr>)
    = (loaded (board [buyMilk, callAna] [] []),
       [Remote (InsertTask ''Write report'' Inicio Normal)])"
  using
    addTask_appends
      [of "(loaded (board [buyMilk] [] []))\<lparr>newTask := '' Write report  ''\<rparr>"
        writeReportRow
        "fst (addTask (Inr writeReportRow)
          ((loaded (board [buyMilk] [] []))\<lparr>newTask := '' Write report  ''\<rparr>))"
        "snd (addTask (Inr writeReportRow)
          ((loaded (board [buyMilk] [] []))\<lparr>newTask := '' Write report  ''\<rparr>))"
        "Inr writeReportRow"]
    addTask_appends
      [of "(loaded (board [buyMilk] [] []))\<lparr>newTask := '' Write report  ''\<rparr>"
        callAnaRow
        "fst (addTask (Inr callAnaRow)
          ((loaded (board [buyMilk] [] []))\<lparr>newTask := '' Write report  ''\<rparr>))"
        "snd (addTask (Inr callAnaRow)
          ((loaded (board [buyMilk] [] []))\<lparr>newTask := '' Write report  ''\<rparr>))"
        "Inr callAnaRow"]
  by (simp add: addTask_def trim_def isWhiteSpace_def loaded_def board_def writeReportRow_def
      writeReport_def callAnaRow_def callAna_def with_comments_def)

subsection \<open>Changing the priority\<close>




text \<open>
  Claim C7. After a successful \<^verbatim>\<open>changeTaskPriority\<close> the drafts, the selected task and
  \<^verbatim>\<open>loading\<close> are as before; there are as many columns, each with its id, title and
  colour and as many tasks as before; the task at each position is the one that was
  there, with the new priority and all other fields kept when its id is the given one
  and unchanged otherwise. When no task has the given id the state is the one before.
\<close>

theorem changeTaskPriority_frame:
  assumes "changeTaskPriority None taskId p s = (s', effs)"
  shows "newTask s' = newTask s \<and> newComment s' = newComment s
     \<and> selectedTask s' = selectedTask s \<and> loading s' = loading s
     \<and> length (columns s') = length (columns s)
     \<and> (\<forall>i<length (columns s).
          col_id (columns s' ! i) = col_id (columns s ! i)
          \<and> col_title (columns s' ! i) = col_title (columns s ! i)
          \<and> col_color (columns s' ! i) = col_color (columns s ! i)
          \<and> length (col_tasks (columns s' ! i)) = length (col_tasks (columns s ! i))
          \<and> (\<forall>j<length (col_tasks (columns s ! i)).
               col_tasks (columns s' ! i) ! j =
                 (if t_id (col_tasks (columns s ! i) ! j) = taskId
                  then (col_tasks (columns s ! i) ! j)\<lparr>t_priority := p\<rparr>
                  else col_tasks (columns s ! i) ! j)))
     \<and> ((\<forall>task\<in>set (allTasks (columns s)). t_id task \<noteq> taskId) \<longrightarrow> s' = s)"
proof -
  have s': "s' = s\<lparr>columns :=
      map (\<lambda>col. col\<lparr>col_tasks :=
             map (\<lambda>task. if t_id task = taskId then task\<lparr>t_priority := p\<rparr> else task)
               (col_tasks col)\<rparr>) (columns s)\<rparr>"
    using assms by (auto simp: changeTaskPriority_def)
  have absent: "(\<forall>task\<in>set (allTasks (columns s)). t_id task \<noteq> taskId) \<longrightarrow> s' = s"
  proof
    assume "\<forall>task\<in>set (allTasks (columns s)). t_id task \<noteq> taskId"
    then have "\<forall>t\<in>set (allTasks (columns s)). t_id t = taskId \<longrightarrow> t_priority t = p"
      by blast
    then show "s' = s"
      by (simp add: s' reprioritize_same)
  qed
  have frame: "newTask s' = newTask s \<and> newComment s' = newComment s
     \<and> selectedTask s' = selectedTask s \<and> loading s' = loading s
     \<and> length (columns s') = length (columns s)
     \<and> (\<forall>i<length (columns s).
          col_id (columns s' ! i) = col_id (columns s ! i)
          \<and> col_title (columns s' ! i) = col_title (columns s ! i)
          \<and> col_color (columns s' ! i) = col_color (columns s ! i)
          \<and> length (col_tasks (columns s' ! i)) = length (col_tasks (columns s ! i))
          \<and> (\<forall>j<length (col_tasks (columns s ! i)).
               col_tasks (columns s' ! i) ! j =
                 (if t_id (col_tasks (columns s ! i) ! j) = taskId
                  then (col_tasks (columns s ! i) ! j)\<lparr>t_priority := p\<rparr>
                  else col_tasks (columns s ! i) ! j)))"
    by (simp add: s')
  from frame absent show ?thesis by blast
qed

theorem changeTaskPriority_frame_witness:
  "changeTaskPriority None ''t2'' Urgente (loaded (board [buyMilk, writeReport] [] []))
     = (loaded (board [buyMilk, writeReport\<lparr>t_priority := Urgente\<rparr>] [] []),
        [Remote (UpdateTaskPriority Urgente ''t2'')])
   \<and> changeTaskPriority None ''t9'' Urgente (loaded (board [buyMilk, writeReport] [] []))
     = (loaded (board [buyMilk, writeReport] [] []),
        [Remote (UpdateTaskPriority Urgente ''t9'')])"
  using changeTaskPriority_frame
    [of "''t2''" Urgente "loaded (board [buyMilk, writeReport] [] [])"
      "fst (changeTaskPriority None ''t2'' Urgente (loaded (board [buyMilk, writeReport] [] [])))"
      "snd (changeTaskPriority None ''t2'' Urgente (loaded (board [buyMilk, writeReport] [] [])))"]
    changeTaskPriority_frame
    [of "''t9''" Urgente "loaded (board [buyMilk, writeReport] [] [])"
      "fst (changeTaskPriority None ''t9'' Urgente (loaded (board [buyMilk, writeReport] [] [])))"
      "snd (changeTaskPriority None ''t9'' Urgente (loaded (board [buyMilk, writeReport] [] [])))"]
  by (simp add: changeTaskPriority_def loaded_def board_def buyMilk_def writeReport_def)

subsection \<open>Deleting a task\<close>

text \<open>
  Claim C8. \<^verbatim>\<open>deleteTask\<close> sends the remote delete for the given id whatever the status
  of the task is; when the delete succeeds, no task of the new snapshot has the id: each
  column keeps, in order, its tasks with another id, and nothing else of the state
  changes. The witness deletes a task whose status is \<^verbatim>\<open>inicio\<close>.
\<close>

theorem deleteTask_removes:
  assumes "deleteTask None taskId s = (s', effs)"
  shows "effs = [Remote (DeleteTask taskId)]
     \<and> remoteCalls (snd (deleteTask answer taskId s)) = [DeleteTask taskId]
     \<and> (\<forall>task\<in>set (allTasks (columns s')). t_id task \<noteq> taskId)
     \<and> occurrences taskId (columns s') = 0
     \<and> length (columns s') = length (columns s)
     \<and> (\<forall>i<length (columns s).
          columns s' ! i =
            (columns s ! i)\<lparr>col_tasks :=
              filter (\<lambda>task. t_id task \<noteq> taskId) (col_tasks (columns s ! i))\<rparr>)
     \<and> newTask s' = newTask s \<and> newComment s' = newComment s
     \<and> selectedTask s' = selectedTask s \<and> loading s' = loading s"
proof -
  have s': "s' = s\<lparr>columns :=
      map (\<lambda>col. col\<lparr>col_tasks := filter (\<lambda>task. t_id task \<noteq> taskId) (col_tasks col)\<rparr>)
        (columns s)\<rparr>"
    and effs: "effs = [Remote (DeleteTask taskId)]"
    using assms by (auto simp: deleteTask_def)
  have calls: "remoteCalls (snd (deleteTask answer taskId s)) = [DeleteTask taskId]"
    by (cases answer) (simp_all add: deleteTask_def)
  have gone: "\<forall>task\<in>set (allTasks (columns s')). t_id task \<noteq> taskId"
    by (auto simp: s' allTasks_def)
  then have "filter (\<lambda>task. t_id task = taskId) (allTasks (columns s')) = []"
    by (simp add: filter_empty_conv)
  then have none: "occurrences taskId (columns s') = 0"
    by (simp add: occurrences_def)
  have frame: "length (columns s') = length (columns s)
     \<and> (\<forall>i<length (columns s).
          columns s' ! i =
            (columns s ! i)\<lparr>col_tasks :=
              filter (\<lambda>task. t_id task \<noteq> taskId) (col_tasks (columns s ! i))\<rparr>)
     \<and> newTask s' = newTask s \<and> newComment s' = newComment s
     \<and> selectedTask s' = selectedTask s \<and> loading s' = loading s"
    by (simp add: s')
  from effs calls gone none frame show ?thesis by blast
qed

theorem deleteTask_removes_witness:
  "t_status buyMilk \<noteq> Acabado
   \<and> deleteTask None ''t1'' (loaded (board [buyMilk, writeReport] [] []))
     = (loaded (board [writeReport] [] []), [Remote (DeleteTask ''t1'')])
   \<and> occurrences ''t1'' (board [writeReport] [] []) = 0"
  using deleteTask_removes [of "''t1''" "loaded (board [buyMilk, writeReport] [] [])"
      "fst (deleteTask None ''t1'' (loaded (board [buyMilk, writeReport] [] [])))"
      "snd (deleteTask None ''t1'' (loaded (board [buyMilk, writeReport] [] [])))" None]
  by (simp add: deleteTask_def loaded_def board_def buyMilk_def writeReport_def
      occurrences_def allTasks_def)

subsection \<open>Adding a comment\<close>

text \<open>
  Claim C9. With a selected task and a comment draft whose trim is not empty, a successful
  \<^verbatim>\<open>addComment\<close> sends the insert of the trimmed draft for the selected task's id, appends
  the returned comment at the end of the comments of every task with that id, in
  whichever column it is, leaves all other tasks and the columns as they were, empties
  the draft and clears the selection. Without a selected task, or with a draft of white
  space only, it sends nothing and returns the state it was called in.
\<close>

theorem addComment_appends:
  "(selectedTask s = Some selected \<and> trim (newComment s) \<noteq> []
      \<and> addComment (Inr inserted) now s = (s', effs) \<longrightarrow>
        effs = [Remote (InsertComment (trim (newComment s)) (t_id selected) now)]
        \<and> newComment s' = '''' \<and> selectedTask s' = None
        \<and> newTask s' = newTask s \<and> loading s' = loading s
        \<and> length (columns s') = length (columns s)
        \<and> (\<forall>i<length (columns s).
             col_id (columns s' ! i) = col_id (columns s ! i)
             \<and> col_title (columns s' ! i) = col_title (columns s ! i)
             \<and> col_color (columns s' ! i) = col_color (columns s ! i)
             \<and> length (col_tasks (columns s' ! i)) = length (col_tasks (columns s ! i))
             \<and> (\<forall>j<length (col_tasks (columns s ! i)).
                  col_tasks (columns s' ! i) ! j =
                    (if t_id (col_tasks (columns s ! i) ! j) = t_id selected
                     then (col_tasks (columns s ! i) ! j)
                            \<lparr>t_comments := t_comments (col_tasks (columns s ! i) ! j) @ [inserted]\<rparr>
                     else col_tasks (columns s ! i) ! j))))
   \<and> (selectedTask s = None \<or> (\<forall>c\<in>set (newComment s). isWhiteSpace c) \<longrightarrow>
        addComment answer now s = (s, []))"
  (is "(?pre \<longrightarrow> ?post) \<and> (?blank \<longrightarrow> ?noop)")
proof (rule conjI)
  show "?blank \<longrightarrow> ?noop"
    by (auto simp: addComment_def trim_empty_iff split: option.split)
next
  show "?pre \<longrightarrow> ?post"
  proof (rule impI)
    assume ?pre
    then have s': "s' = s\<lparr>columns :=
          map (\<lambda>col. col\<lparr>col_tasks :=
                 map (\<lambda>task. if t_id task = t_id selected
                              then task\<lparr>t_comments := t_comments task @ [inserted]\<rparr>
                              else task)
                   (col_tasks col)\<rparr>) (columns s),
          newComment := '''', selectedTask := None\<rparr>"
      and effs: "effs = [Remote (InsertComment (trim (newComment s)) (t_id selected) now)]"
      by (auto simp: addComment_def)
    show ?post
      unfolding effs by (simp add: s')
  qed
qed

theorem addComment_appends_witness:
  "addComment (Inr looksGood) 1700000000000
      ((loaded (board [buyMilk, writeReport] [] []))
         \<lparr>newComment := ''Looks good '', selectedTask := Some buyMilk\<rparr>)
     = (loaded (board [buyMilk\<lparr>t_comments := [looksGood]\<rparr>, writeReport] [] []),
        [Remote (InsertComment ''Looks good'' ''t1'' 1700000000000)])
   \<and> addComment (Inr looksGood) 1700000000000
      ((loaded (board [buyMilk, writeReport] [] []))\<lparr>newComment := ''Looks good ''\<rparr>)
     = ((loaded (board [buyMilk, writeReport] [] []))\<lparr>newComment := ''Looks good ''\<rparr>, [])
   \<and> addComment (Inr looksGood) 1700000000000
      ((loaded (board [buyMilk, writeReport] [] []))
         \<lparr>newComment := ''  '', selectedTask := Some buyMilk\<rparr>)
     = ((loaded (board [buyMilk, writeReport] [] []))
         \<lparr>newComment := ''  '', selectedTask := Some buyMilk\<rparr>, [])"
  using addComment_appends
    [of "(loaded (board [buyMilk, writeReport] [] []))
           \<lparr>newComment := ''Looks good '', selectedTask := Some buyMilk\<rparr>"
      buyMilk looksGood 1700000000000
      "fst (addComment (Inr looksGood) 1700000000000
        ((loaded (board [buyMilk, writeReport] [] []))
           \<lparr>newComment := ''Looks good '', selectedTask := Some buyMilk\<rparr>))"
      "snd (addComment (Inr looksGood) 1700000000000
        ((loaded (board [buyMilk, writeReport] [] []))
           \<lparr>newComment := ''Looks good '', selectedTask := Some buyMilk\<rparr>))"
      "Inr looksGood"]
  by (simp add: addComment_def trim_def isWhiteSpace_def loaded_def board_def buyMilk_def
      writeReport_def)

end
